theory Spec2Isabelle
  imports Main
begin

section \<open>Values exchanged with the worker and with Emacs\<close>

text \<open>
  The orchestrator \<^verbatim>\<open>emigo.py\<close> talks to its worker in newline-delimited JSON and keeps
  chat messages as Python dicts. A decoded value is a \<open>json\<close>; a dict is an association
  list with distinct keys, as \<^verbatim>\<open>json.loads\<close> builds it. Numbers are integers here: the
  code only tests them for truth.
\<close>

datatype json =
    JNull
  | JBool bool
  | JNum int
  | JStr string
  | JList "json list"
  | JDict "(string \<times> json) list"

text \<open>Python's truth value of a decoded value (\<^verbatim>\<open>if x:\<close>, \<^verbatim>\<open>not x\<close>).\<close>

fun truthy :: "json \<Rightarrow> bool" where
  "truthy JNull = False"
| "truthy (JBool b) = b"
| "truthy (JNum n) = (n \<noteq> 0)"
| "truthy (JStr s) = (s \<noteq> [])"
| "truthy (JList xs) = (xs \<noteq> [])"
| "truthy (JDict d) = (d \<noteq> [])"

text \<open>\<^verbatim>\<open>d.get(k)\<close> and \<^verbatim>\<open>d.get(k, default)\<close>; \<^verbatim>\<open>k in d\<close>; \<^verbatim>\<open>d[k] = v\<close>.\<close>

definition dict_get :: "(string \<times> json) list \<Rightarrow> string \<Rightarrow> json \<Rightarrow> json" where
  "dict_get d k dflt = (case map_of d k of None \<Rightarrow> dflt | Some v \<Rightarrow> v)"

definition dict_has :: "(string \<times> json) list \<Rightarrow> string \<Rightarrow> bool" where
  "dict_has d k = (map_of d k \<noteq> None)"

fun dict_set :: "string \<Rightarrow> json \<Rightarrow> (string \<times> json) list \<Rightarrow> (string \<times> json) list" where
  "dict_set k v [] = [(k, v)]"
| "dict_set k v ((k', v') # d) = (if k = k' then (k, v) # d else (k', v') # dict_set k v d)"

text \<open>
  Exceptions the modelled code can meet, and how a call ends: it returns a value or an
  exception leaves it. A thread that waits for ever on the lock is the value \<open>None\<close> of
  the functions below that return an option.
\<close>

datatype exn = AttributeError | TypeError

datatype 'a outcome = Returned 'a | Raised exn

text \<open>
  What reaches Emacs: \<^verbatim>\<open>eval_in_emacs(name, *args)\<close> and \<^verbatim>\<open>message_emacs(text)\<close>. What is
  printed on stderr: the text of the print with the interpolated values beside it.
  Most progress prints marked DEBUG in the source are left out; warnings and errors are kept.
\<close>

datatype emacs_call = Eval_in_emacs string "json list" | Message_emacs string

datatype stderr_line = Print string "json list"

definition nl :: string where
  "nl = [CHR 0x0A]"

definition sq :: string where
  "sq = [CHR 0x27]"

section \<open>Sessions\<close>

text \<open>
  Modelled from the spec: the class \<^verbatim>\<open>Context\<close> of \<^verbatim>\<open>context.py\<close>, which is not among the
  sources. The spec's Session has an identifier, an ordered sequence of timestamped
  messages, a set of chat-file paths, a cache-validity flag and a verbosity flag.
  \<^verbatim>\<open>set_history\<close> is given messages without timestamps and replaces the history
  wholesale, \<^verbatim>\<open>append_history\<close> adds one entry at the end, and both stamp what they store
  with the current time.
\<close>

record Context =
  session_path :: json
  history :: "(nat \<times> json) list"
  chat_files :: "string list"
  cache_valid :: bool
  verbose :: bool

definition new_Context :: "json \<Rightarrow> bool \<Rightarrow> Context" where
  "new_Context sp v =
     \<lparr>session_path = sp, history = [], chat_files = [], cache_valid = False, verbose = v\<rparr>"

definition set_history :: "nat \<Rightarrow> json list \<Rightarrow> Context \<Rightarrow> Context" where
  "set_history t msgs c = c\<lparr>history := map (Pair t) msgs\<rparr>"

definition append_history :: "nat \<Rightarrow> json \<Rightarrow> Context \<Rightarrow> Context" where
  "append_history t msg c = c\<lparr>history := history c @ [(t, msg)]\<rparr>"

definition invalidate_cache :: "Context \<Rightarrow> Context" where
  "invalidate_cache c = c\<lparr>cache_valid := False\<rparr>"

text \<open>The messages of a history, without their timestamps.\<close>

definition messages :: "Context \<Rightarrow> json list" where
  "messages c = map snd (history c)"

section \<open>The worker process and the orchestrator's state\<close>

text \<open>
  A \<^verbatim>\<open>subprocess.Popen\<close> handle. \<open>pid\<close> numbers the processes in the order they were
  spawned. \<open>exited\<close> is \<^verbatim>\<open>poll() is not None\<close>; \<open>stdin_closed\<close> records \<^verbatim>\<open>stdin.close()\<close>;
  \<open>written\<close> is what has been written to the worker's stdin.
\<close>

record popen =
  pid :: nat
  exited :: bool
  has_stdin :: bool
  has_stdout :: bool
  stdin_closed :: bool
  written :: "json list"

text \<open>
  The fields of the \<^verbatim>\<open>Emigo\<close> object the modelled methods use. An entry of the queue is
  a stripped line or the sentinel \<^verbatim>\<open>None\<close>; its first component is bookkeeping that no
  operation reads: the \<open>pid\<close> of the process whose pump queued it (the source queues bare
  lines). \<open>llm_worker_lock\<close> tells whether the \<^verbatim>\<open>threading.Lock\<close> is held.
  \<open>worker_processor_thread\<close> tells whether the router thread exists and is alive.
  \<open>routed\<close> is bookkeeping too: for every entry the router has taken from the queue, the
  \<open>pid\<close> it was queued under and the \<open>pid\<close> of the latest process at that moment.
  \<open>emacs\<close> and \<open>stderr\<close> collect the calls to Emacs and the printed lines.
\<close>

type_synonym qitem = "nat \<times> string option"

record emigo =
  sessions :: "json \<Rightarrow> Context option"
  llm_worker_process :: "popen option"
  llm_worker_lock :: bool
  worker_output_queue :: "qitem list"
  active_interaction_session :: "string option"
  worker_processor_thread :: bool
  spawned :: nat
  routed :: "(nat \<times> nat) list"
  emacs :: "emacs_call list"
  stderr :: "stderr_line list"

definition eval_in_emacs :: "string \<Rightarrow> json list \<Rightarrow> emigo \<Rightarrow> emigo" where
  "eval_in_emacs f args st = st\<lparr>emacs := emacs st @ [Eval_in_emacs f args]\<rparr>"

definition message_emacs :: "string \<Rightarrow> emigo \<Rightarrow> emigo" where
  "message_emacs txt st = st\<lparr>emacs := emacs st @ [Message_emacs txt]\<rparr>"

definition print_stderr :: "string \<Rightarrow> json list \<Rightarrow> emigo \<Rightarrow> emigo" where
  "print_stderr txt args st = st\<lparr>stderr := stderr st @ [Print txt args]\<rparr>"

definition put :: "qitem \<Rightarrow> emigo \<Rightarrow> emigo" where
  "put x st = st\<lparr>worker_output_queue := worker_output_queue st @ [x]\<rparr>"

text \<open>\<^verbatim>\<open>self.llm_worker_process and self.llm_worker_process.poll() is None\<close>.\<close>

definition worker_running :: "emigo \<Rightarrow> bool" where
  "worker_running st =
     (case llm_worker_process st of None \<Rightarrow> False | Some p \<Rightarrow> \<not> exited p)"

section \<open>The environment of a call\<close>

text \<open>
  Everything a method asks of the outside world during one call: the JSON decoder, the
  content filter \<^verbatim>\<open>_filter_context\<close> of \<^verbatim>\<open>utils.py\<close> (a function on strings; on another
  value it may raise, which is \<open>None\<close>), Python's \<^verbatim>\<open>str\<close>, the file system, the clock,
  the Context's \<^verbatim>\<open>generate_context_string\<close>, Emacs' answers, and how spawning, stopping
  and writing to the worker turn out.
\<close>

datatype spawn_result = Spawn_raises | Spawn_exited int | Spawn_running

datatype terminate_result = Terminated | Wait_timeout | Terminate_raises

datatype write_result = Written | Pipe_error | Unexpected_error

record env =
  loads :: "string \<Rightarrow> json option"
  filter_str :: "string \<Rightarrow> string"
  filter_other :: "json \<Rightarrow> json option"
  py_str :: "json \<Rightarrow> string"
  isdir :: "string \<Rightarrow> bool"
  isdir_fd :: "int \<Rightarrow> bool"
  now :: nat
  context_string :: "Context \<Rightarrow> json \<Rightarrow> string \<times> string list \<times> bool"
  yes_or_no_p :: "bool option"
  emacs_vars :: "json list option"
  spawn :: spawn_result
  reader_thread_alive :: bool
  stderr_thread_alive :: bool
  processor_thread_alive :: bool
  terminate :: terminate_result
  join_in_time :: bool
  stdin_write :: write_result
  exn_text :: string

text \<open>
  \<^verbatim>\<open>_filter_context(x)\<close>, and the text an f-string puts for a value: a string stands for
  itself, another value goes through \<^verbatim>\<open>str\<close>.
\<close>

definition filter_context :: "env \<Rightarrow> json \<Rightarrow> json option" where
  "filter_context e x = (case x of JStr s \<Rightarrow> Some (JStr (filter_str e s)) | _ \<Rightarrow> filter_other e x)"

definition fmt :: "env \<Rightarrow> json \<Rightarrow> string" where
  "fmt e x = (case x of JStr s \<Rightarrow> s | _ \<Rightarrow> py_str e x)"

text \<open>
  \<^verbatim>\<open>os.path.isdir\<close>: a string is looked up, an integer is a file descriptor, and any
  other value makes \<^verbatim>\<open>os.stat\<close> raise TypeError, which \<^verbatim>\<open>isdir\<close> does not catch.
\<close>

definition os_path_isdir :: "env \<Rightarrow> json \<Rightarrow> bool option" where
  "os_path_isdir e x =
     (case x of
        JStr s \<Rightarrow> Some (isdir e s)
      | JNum n \<Rightarrow> Some (isdir_fd e n)
      | JBool b \<Rightarrow> Some (isdir_fd e (if b then 1 else 0))
      | _ \<Rightarrow> None)"

text \<open>
  Modelled from the spec: \<^verbatim>\<open>Context.generate_context_string\<close> of \<^verbatim>\<open>context.py\<close>. It returns
  the context string and may change the chat-file set (file mentions of a fresh prompt)
  and the cache flag; the history is not its to change.
\<close>

definition generate_context_string :: "env \<Rightarrow> json \<Rightarrow> Context \<Rightarrow> string \<times> Context" where
  "generate_context_string e current_prompt c =
     (case context_string e c current_prompt of
        (s, files, valid) \<Rightarrow> (s, c\<lparr>chat_files := files, cache_valid := valid\<rparr>))"

section \<open>The stdout pump\<close>

text \<open>
  \<^verbatim>\<open>str.strip()\<close> on ASCII text, and one \<^verbatim>\<open>readline()\<close> of the worker's stdout: a line (the
  empty string is end of stream), or an exception. A list of reads that ends without
  end of stream or an exception is a worker that writes nothing more and keeps its
  stdout open: the pump then waits in \<^verbatim>\<open>readline\<close> for ever, which is \<open>None\<close>.
\<close>

definition isspace :: "char \<Rightarrow> bool" where
  "isspace c =
     (c \<in> set [CHR 0x09, CHR 0x0A, CHR 0x0B, CHR 0x0C, CHR 0x0D,
               CHR 0x1C, CHR 0x1D, CHR 0x1E, CHR 0x1F, CHR 0x20])"

definition strip :: "string \<Rightarrow> string" where
  "strip s = rev (dropWhile isspace (rev (dropWhile isspace s)))"

datatype readline = Line string | Read_ValueError | Read_Exception

fun pump_lines :: "nat \<Rightarrow> readline list \<Rightarrow> emigo \<Rightarrow> emigo option" where
  "pump_lines g [] st = None"
| "pump_lines g (Line l # rs) st =
     (if l = [] then Some st else pump_lines g rs (put (g, Some (strip l)) st))"
| "pump_lines g (Read_ValueError # rs) st =
     Some (print_stderr ''Error reading from LLM worker stdout (stream likely closed): {e}'' [] st)"
| "pump_lines g (Read_Exception # rs) st =
     Some (print_stderr ''Error reading from LLM worker stdout: {e}'' [] st)"

text \<open>
  \<^verbatim>\<open>_read_worker_stdout\<close>, run by a reader thread. \<open>proc\<close> is the handle the thread captured
  when it started (\<^verbatim>\<open>proc = self.llm_worker_process\<close>), which need not be the
  orchestrator's current one any more.
\<close>

definition pump_tag :: "popen option \<Rightarrow> nat" where
  "pump_tag proc = (case proc of None \<Rightarrow> 0 | Some p \<Rightarrow> pid p)"

definition read_worker_stdout :: "popen option \<Rightarrow> readline list \<Rightarrow> emigo \<Rightarrow> emigo option" where
  "read_worker_stdout proc reads st =
     (if (case proc of None \<Rightarrow> False | Some p \<Rightarrow> has_stdout p)
      then (case pump_lines (pump_tag proc) reads st of
              None \<Rightarrow> None
            | Some st1 \<Rightarrow>
                Some (put (pump_tag proc, None)
                       (print_stderr ''Signaling end of worker output.'' [] st1)))
      else Some (put (pump_tag proc, None)
                  (print_stderr ''Worker process or stdout not available for reading.'' [] st)))"

text \<open>Whether a list of reads holds one that ends the loop.\<close>

fun stream_ends :: "readline list \<Rightarrow> bool" where
  "stream_ends [] = False"
| "stream_ends (Line l # rs) = (l = [] \<or> stream_ends rs)"
| "stream_ends (r # rs) = True"

section \<open>The session registry\<close>

text \<open>
  \<^verbatim>\<open>_get_or_create_context\<close>. A list or dict cannot be a dictionary key: looking it up in
  \<^verbatim>\<open>self.sessions\<close> raises TypeError. The Context object is shared with the dictionary, so
  a later change to it is written back with \<open>store_context\<close>.
\<close>

definition hashable :: "json \<Rightarrow> bool" where
  "hashable x = (case x of JList _ \<Rightarrow> False | JDict _ \<Rightarrow> False | _ \<Rightarrow> True)"

definition store_context :: "json \<Rightarrow> Context \<Rightarrow> emigo \<Rightarrow> emigo" where
  "store_context sp c st = st\<lparr>sessions := (sessions st)(sp \<mapsto> c)\<rparr>"

definition get_or_create_context :: "env \<Rightarrow> json \<Rightarrow> emigo \<Rightarrow> emigo \<times> Context option outcome" where
  "get_or_create_context e sp st =
     (case os_path_isdir e sp of
        None \<Rightarrow> (st, Raised TypeError)
      | Some False \<Rightarrow>
          (eval_in_emacs ''message'' [JStr (''[Emigo Error] Invalid context path: '' @ fmt e sp)]
             (print_stderr ''ERROR: Invalid context path (not a directory): {session_path}'' [sp] st),
           Returned None)
      | Some True \<Rightarrow>
          (if \<not> hashable sp then (st, Raised TypeError)
           else (case sessions st sp of
                   None \<Rightarrow>
                     (store_context sp (new_Context sp True)
                        (print_stderr ''Creating new context object for: {session_path}'' [sp] st),
                      Returned (Some (new_Context sp True)))
                 | Some c \<Rightarrow> (st, Returned (Some c)))))"

section \<open>The message router\<close>

text \<open>
  \<^verbatim>\<open>self.active_interaction_session == session_path\<close>, for a decoded \<open>session\<close> value.
\<close>

definition names_active :: "emigo \<Rightarrow> json \<Rightarrow> bool" where
  "names_active st sp =
     (case active_interaction_session st of None \<Rightarrow> sp = JNull | Some a \<Rightarrow> sp = JStr a)"

text \<open>The filtering of one entry of \<open>final_history\<close> (lines 404 to 413).\<close>

definition filter_message :: "env \<Rightarrow> json \<Rightarrow> json" where
  "filter_message e msg =
     (case msg of
        JDict d \<Rightarrow>
          (if dict_has d ''content''
           then JDict (dict_set ''content''
                         (JStr (filter_str e (fmt e (dict_get d ''content'' (JStr [])))))
                         d)
           else msg)
      | _ \<Rightarrow> msg)"

definition normal_completion :: "json \<Rightarrow> bool" where
  "normal_completion status = (status = JStr ''success'' \<or> status = JStr ''max_turns_reached'')"

definition agent_finished :: "json \<Rightarrow> emigo \<Rightarrow> emigo" where
  "agent_finished sp st = eval_in_emacs ''emigo--agent-finished'' [sp] st"

definition process_stream :: "env \<Rightarrow> (string \<times> json) list \<Rightarrow> json \<Rightarrow> emigo \<Rightarrow> emigo \<times> exn option" where
  "process_stream e d sp st =
     (let role = dict_get d ''role'' (JStr ''llm'');
          content = dict_get d ''content'' (JStr [])
      in case (if role \<noteq> JStr ''tool_json_args'' then filter_context e content else Some content) of
           None \<Rightarrow> (st, Some TypeError)
         | Some filtered_content \<Rightarrow>
             (if truthy filtered_content \<or> role = JStr ''tool_json''
              then eval_in_emacs ''emigo--flush-buffer'' [sp, filtered_content, role] st
              else st,
              None))"

text \<open>
  Lines 397 to 420 of the \<open>finished\<close> branch: on normal completion with a final history
  that is a non-empty list, the session's history is replaced by the filtered entries.
\<close>

definition replace_history :: "env \<Rightarrow> json \<Rightarrow> json list \<Rightarrow> emigo \<Rightarrow> emigo \<times> exn option" where
  "replace_history e sp final_history st =
     (case get_or_create_context e sp st of
        (st1, Raised x) \<Rightarrow> (st1, Some x)
      | (st1, Returned None) \<Rightarrow>
          (print_stderr ''Error: Could not find context {session_path} to update history.'' [sp] st1, None)
      | (st1, Returned (Some c)) \<Rightarrow>
          (store_context sp (set_history (now e) (map (filter_message e) final_history) c)
             (print_stderr
                ''Updating session history for {session_path} with {len(filtered_history)} filtered messages.''
                [sp, JNum (int (length final_history))] st1),
           None))"

definition update_history :: "env \<Rightarrow> (string \<times> json) list \<Rightarrow> json \<Rightarrow> emigo \<Rightarrow> emigo \<times> exn option" where
  "update_history e d sp st =
     (if normal_completion (dict_get d ''status'' (JStr ''unknown''))
      then (case dict_get d ''final_history'' JNull of
              JList final_history \<Rightarrow>
                (if final_history \<noteq> [] then replace_history e sp final_history st
                 else (print_stderr
                         ''Warning: Worker finished successfully but did not provide final history for {session_path}.''
                         [sp] st,
                       None))
            | _ \<Rightarrow>
                (print_stderr
                   ''Warning: Worker finished successfully but did not provide final history for {session_path}.''
                   [sp] st,
                 None))
      else (st, None))"

text \<open>
  The \<open>finished\<close> branch: the active flag is cleared first, then the history is updated,
  then Emacs is told, unless an exception has left the branch before.
\<close>

definition clear_active :: "json \<Rightarrow> emigo \<Rightarrow> emigo" where
  "clear_active sp st = (if names_active st sp then st\<lparr>active_interaction_session := None\<rparr> else st)"

definition process_finished :: "env \<Rightarrow> (string \<times> json) list \<Rightarrow> json \<Rightarrow> emigo \<Rightarrow> emigo \<times> exn option" where
  "process_finished e d sp st =
     (case update_history e d sp
             (clear_active sp
                (print_stderr
                   ''Worker finished interaction for {session_path}. Status: {status}. Message: {finish_message}''
                   [sp, dict_get d ''status'' (JStr ''unknown''), dict_get d ''message'' (JStr [])] st)) of
        (st1, Some x) \<Rightarrow> (st1, Some x)
      | (st1, None) \<Rightarrow> (agent_finished sp st1, None))"

definition process_error :: "env \<Rightarrow> (string \<times> json) list \<Rightarrow> json \<Rightarrow> emigo \<Rightarrow> emigo" where
  "process_error e d sp st =
     clear_active sp
       (eval_in_emacs ''emigo--flush-buffer''
          [sp, JStr (''[Worker Error: '' @ fmt e (dict_get d ''message'' (JStr ''Unknown error from worker'')) @ '']''),
           JStr ''error'']
          (print_stderr ''Error from worker ({session_path}): {error_msg}''
             [sp, dict_get d ''message'' (JStr ''Unknown error from worker'')] st))"

text \<open>
  The body of the \<^verbatim>\<open>try\<close> after \<^verbatim>\<open>json.loads\<close>: the state it leaves and the exception that
  left it, if any. \<^verbatim>\<open>message.get\<close> on a value that is not a dict raises AttributeError.
\<close>

definition process_message :: "env \<Rightarrow> json \<Rightarrow> emigo \<Rightarrow> emigo \<times> exn option" where
  "process_message e message st =
     (case message of
        JDict d \<Rightarrow>
          (let msg_type = dict_get d ''type'' JNull;
               sp = dict_get d ''session'' JNull
           in if \<not> truthy sp
              then (print_stderr ''Worker message missing session path: {message}'' [message] st, None)
              else if msg_type = JStr ''stream'' then process_stream e d sp st
              else if msg_type = JStr ''finished'' then process_finished e d sp st
              else if msg_type = JStr ''error'' then (process_error e d sp st, None)
              else if msg_type = JStr ''pong''
              then (print_stderr ''Received pong from worker for session: {session_path}'' [sp] st, None)
              else (st, None))
      | _ \<Rightarrow> (st, Some AttributeError))"

text \<open>One dequeued line: the whole \<^verbatim>\<open>try\<close> statement with its two handlers.\<close>

definition process_line :: "env \<Rightarrow> string \<Rightarrow> emigo \<Rightarrow> emigo" where
  "process_line e line st =
     (case loads e line of
        None \<Rightarrow> print_stderr ''Received invalid JSON from worker queue: {line}'' [JStr line] st
      | Some message \<Rightarrow>
          (case process_message e message st of
             (st1, None) \<Rightarrow> st1
           | (st1, Some x) \<Rightarrow> print_stderr ''Error processing worker queue message: {e}'' [] st1))"

text \<open>
  \<^verbatim>\<open>_process_worker_queue\<close>, run by the router thread, on the entries that are in the queue:
  it takes them in order, stops for good at the first sentinel, and is left waiting in
  \<^verbatim>\<open>get()\<close> when the queue runs empty.
\<close>

fun router_loop :: "env \<Rightarrow> qitem list \<Rightarrow> emigo \<Rightarrow> emigo" where
  "router_loop e [] st = st\<lparr>worker_output_queue := []\<rparr>"
| "router_loop e ((g, None) # q) st =
     print_stderr ''Worker output queue processing stopped.'' []
       (st\<lparr>worker_output_queue := q, worker_processor_thread := False,
           routed := routed st @ [(g, spawned st)]\<rparr>)"
| "router_loop e ((g, Some line) # q) st =
     router_loop e q
       (process_line e line (st\<lparr>worker_output_queue := q, routed := routed st @ [(g, spawned st)]\<rparr>))"

definition process_worker_queue :: "env \<Rightarrow> emigo \<Rightarrow> emigo" where
  "process_worker_queue e st = router_loop e (worker_output_queue st) st"

section \<open>Starting and stopping the worker\<close>

text \<open>
  The lock is a \<^verbatim>\<open>threading.Lock\<close>, which is not re-entrant: \<^verbatim>\<open>with self.llm_worker_lock\<close>
  waits for ever when the lock is held, also when the thread that asks holds it. A method
  that takes the lock therefore returns \<open>None\<close> on a state whose lock is held, and
  otherwise leaves the lock free again.

  The \<^verbatim>\<open>try\<close> block of \<^verbatim>\<open>_start_llm_worker\<close>: \<^verbatim>\<open>Popen\<close> raises, or the process has exited
  after the grace delay, or it runs; then the two reader threads are started. The
  threads' own work is not part of this call (see \<open>read_worker_stdout\<close>).
\<close>

definition spawn_worker :: "env \<Rightarrow> emigo \<Rightarrow> emigo" where
  "spawn_worker e st =
     (case spawn e of
        Spawn_raises \<Rightarrow>
          message_emacs (''Error: Failed to start LLM worker subprocess: '' @ exn_text e)
            ((print_stderr ''_start_llm_worker: Failed to start LLM worker: {e}'' [] st)
               \<lparr>llm_worker_process := None\<rparr>)
      | Spawn_exited code \<Rightarrow>
          message_emacs
            (''Error: LLM worker process failed to start (exit code '' @ fmt e (JNum code)
               @ ''). Check *Messages* or Emigo process buffer.'')
            ((print_stderr
                ''_start_llm_worker: ERROR - LLM worker process exited immediately with code {code}.''
                [JNum code] st)
               \<lparr>llm_worker_process := None, spawned := Suc (spawned st)\<rparr>)
      | Spawn_running \<Rightarrow>
          (let p = \<lparr>pid = Suc (spawned st), exited = False, has_stdin = True, has_stdout = True,
                    stdin_closed = False, written = []\<rparr>;
               st1 = st\<lparr>llm_worker_process := Some p, spawned := Suc (spawned st)\<rparr>
           in if \<not> reader_thread_alive e
              then (print_stderr ''_start_llm_worker: ERROR - stdout reader thread failed to start.'' [] st1)
                     \<lparr>llm_worker_process := None\<rparr>
              else if \<not> stderr_thread_alive e
              then (print_stderr ''_start_llm_worker: ERROR - stderr reader thread failed to start.'' [] st1)
                     \<lparr>llm_worker_process := None\<rparr>
              else st1))"

definition start_llm_worker :: "env \<Rightarrow> emigo \<Rightarrow> emigo option" where
  "start_llm_worker e st =
     (if llm_worker_lock st then None
      else Some (if worker_running st
                 then print_stderr ''LLM worker process already running.'' [] st
                 else spawn_worker e st))"

text \<open>
  The first half of \<^verbatim>\<open>_stop_llm_worker\<close>. The handle is set to \<^verbatim>\<open>None\<close> only in the handler
  of an unexpected exception; after a normal stop it still holds the dead process. A
  killed process counts as exited.
\<close>

definition stop_process :: "env \<Rightarrow> emigo \<Rightarrow> emigo" where
  "stop_process e st =
     (case llm_worker_process st of
        None \<Rightarrow> st
      | Some p \<Rightarrow>
          (let st1 = print_stderr ''Stopping LLM worker process...'' [] st;
               p1 = (if has_stdin p then p\<lparr>stdin_closed := True\<rparr> else p)
           in if exited p then st1
              else (case terminate e of
                      Terminated \<Rightarrow> st1\<lparr>llm_worker_process := Some (p1\<lparr>exited := True\<rparr>)\<rparr>
                    | Wait_timeout \<Rightarrow>
                        (print_stderr ''LLM worker did not terminate gracefully, killing.'' [] st1)
                          \<lparr>llm_worker_process := Some (p1\<lparr>exited := True\<rparr>)\<rparr>
                    | Terminate_raises \<Rightarrow>
                        (print_stderr ''LLM worker process stopped.'' []
                           (print_stderr ''Error stopping LLM worker: {e}'' [] st1))
                          \<lparr>llm_worker_process := None\<rparr>)))"

text \<open>
  The second half: if the router thread is alive, a sentinel is queued and the thread is
  joined for two seconds. A join that succeeds means the router has taken every entry up
  to a sentinel meanwhile (\<open>process_worker_queue\<close>); after a join that times out the
  reference to the thread is dropped.
\<close>

definition stop_llm_worker :: "env \<Rightarrow> emigo \<Rightarrow> emigo option" where
  "stop_llm_worker e st =
     (if llm_worker_lock st then None
      else Some
        (let st1 = stop_process e st
         in if worker_processor_thread st1
            then (let st2 = put (spawned st1, None)
                              (print_stderr ''Signaling worker queue processor thread to stop...'' [] st1)
                  in if join_in_time e then process_worker_queue e st2
                     else (print_stderr ''Warning: Worker queue processor thread did not exit cleanly.'' [] st2)
                            \<lparr>worker_processor_thread := False\<rparr>)
            else st1))"

section \<open>Sending to the worker\<close>

text \<open>
  \<^verbatim>\<open>_send_to_worker\<close>. It holds the lock for its whole body, and calls \<^verbatim>\<open>_start_llm_worker\<close>
  (line 312) and \<^verbatim>\<open>_stop_llm_worker\<close> (line 329) inside it. A write to a closed stdin
  raises ValueError, which the first handler catches with the pipe errors.
\<close>

definition report_send_error :: "(string \<times> json) list \<Rightarrow> string \<Rightarrow> emigo \<Rightarrow> emigo" where
  "report_send_error data txt st =
     eval_in_emacs ''emigo--flush-buffer''
       [dict_get data ''session'' (JStr ''unknown''), JStr txt, JStr ''error''] st"

definition write_to_worker :: "env \<Rightarrow> (string \<times> json) list \<Rightarrow> emigo \<Rightarrow> emigo option" where
  "write_to_worker e data st =
     (case llm_worker_process st of
        Some p \<Rightarrow>
          (if has_stdin p
           then (case (if stdin_closed p then Pipe_error else stdin_write e) of
                   Written \<Rightarrow>
                     Some (st\<lparr>llm_worker_process := Some (p\<lparr>written := written p @ [JDict data]\<rparr>)\<rparr>)
                 | Pipe_error \<Rightarrow>
                     (case stop_llm_worker e
                             (print_stderr ''Error sending to LLM worker (Pipe closed or invalid state): {e}'' [] st) of
                        None \<Rightarrow> None
                      | Some st1 \<Rightarrow>
                          Some (report_send_error data
                                  (''[Error: Failed to send message to worker ('' @ exn_text e @ '')]'') st1))
                 | Unexpected_error \<Rightarrow>
                     Some (report_send_error data
                             (''[Error: Unexpected error sending message to worker ('' @ exn_text e @ '')]'')
                             (print_stderr ''Unexpected error sending to LLM worker: {e}'' [] st)))
           else Some (report_send_error data ''[Error: Cannot write to LLM worker process]''
                       (print_stderr ''Cannot send to worker, stdin not available or closed.'' [] st)))
      | None \<Rightarrow>
          Some (report_send_error data ''[Error: LLM worker process is not running]''
                  (print_stderr ''Cannot send to worker, process is not running.'' [] st)))"

definition send_to_worker :: "env \<Rightarrow> (string \<times> json) list \<Rightarrow> emigo \<Rightarrow> emigo option" where
  "send_to_worker e data st =
     (if llm_worker_lock st then None
      else (let st0 = st\<lparr>llm_worker_lock := True\<rparr>
            in if \<not> worker_running st0
               then (case start_llm_worker e
                            (print_stderr ''Cannot send to worker, process not running. Attempting restart...'' [] st0) of
                       None \<Rightarrow> None
                     | Some st1 \<Rightarrow>
                         (if llm_worker_process st1 = None
                          then Some ((report_send_error data ''[Error: LLM worker process is not running]''
                                        (print_stderr ''Worker restart failed. Cannot send message.'' [] st1))
                                       \<lparr>llm_worker_lock := False\<rparr>)
                          else map_option (\<lambda>s. s\<lparr>llm_worker_lock := False\<rparr>) (write_to_worker e data st1)))
               else map_option (\<lambda>s. s\<lparr>llm_worker_lock := False\<rparr>) (write_to_worker e data st0)))"

section \<open>Cancelling\<close>

text \<open>
  The drain loop of \<^verbatim>\<open>cancel_llm_interaction\<close> (lines 672 to 685): it takes entries until
  \<^verbatim>\<open>get\<close> times out on the empty queue, skips sentinels and counts the rest. The result is
  what is left in the queue and the count.
\<close>

fun drain :: "qitem list \<Rightarrow> nat \<Rightarrow> qitem list \<times> nat" where
  "drain [] n = ([], n)"
| "drain ((g, None) # q) n = drain q n"
| "drain ((g, Some stale_msg) # q) n = drain q (Suc n)"

definition drain_queue :: "emigo \<Rightarrow> emigo" where
  "drain_queue st =
     (case drain (worker_output_queue st) 0 of
        (q, drained_count) \<Rightarrow>
          print_stderr ''Worker output queue drained ({drained_count} messages discarded).''
            [JNum (int drained_count)] (st\<lparr>worker_output_queue := q\<rparr>))"

text \<open>
  Lines 720 to 744: the cancelled prompt is taken off the session's history when the last
  entry is a user message, and the session's cache is invalidated. \<^verbatim>\<open>last_message.get\<close>
  raises AttributeError on an entry that is not a dict.
\<close>

definition rollback_history :: "env \<Rightarrow> string \<Rightarrow> emigo \<Rightarrow> emigo \<times> unit outcome" where
  "rollback_history e sp st =
     (case sessions st (JStr sp) of
        None \<Rightarrow>
          (print_stderr
             ''Warning: Could not find context {session_path} to update history or invalidate cache after cancellation.''
             [JStr sp] st,
           Returned ())
      | Some c \<Rightarrow>
          (if history c = []
           then (store_context (JStr sp) (invalidate_cache c)
                   (print_stderr ''DEBUG: History for context {session_path} was empty, nothing to remove.''
                      [JStr sp] st),
                 Returned ())
           else (case snd (last (history c)) of
                   JDict last_message \<Rightarrow>
                     (if dict_get last_message ''role'' JNull = JStr ''user''
                      then (store_context (JStr sp)
                              (invalidate_cache (set_history (now e) (map snd (butlast (history c))) c)) st,
                            Returned ())
                      else (store_context (JStr sp) (invalidate_cache c)
                              (print_stderr
                                 ''Warning: Last message in history for cancelled context {session_path} was not from user.''
                                 [JStr sp] st),
                            Returned ()))
                 | _ \<Rightarrow> (st, Raised AttributeError))))"

text \<open>
  Lines 667 to 689: the worker is stopped, the queue is drained, and a worker is started.
\<close>

definition restart_worker :: "env \<Rightarrow> emigo \<Rightarrow> emigo option" where
  "restart_worker e st =
     (case stop_llm_worker e st of
        None \<Rightarrow> None
      | Some st1 \<Rightarrow> start_llm_worker e (drain_queue st1))"

text \<open>\<^verbatim>\<open>cancel_llm_interaction\<close>: the state it leaves, and the value it returns.\<close>

definition cancel_llm_interaction :: "env \<Rightarrow> string \<Rightarrow> emigo \<Rightarrow> (emigo \<times> bool outcome) option" where
  "cancel_llm_interaction e sp st =
     (if active_interaction_session st \<noteq> Some sp
      then Some (message_emacs (''No active interaction found for session '' @ sp @ '' to cancel.'') st,
                 Returned False)
      else (case restart_worker e st of
              None \<Rightarrow> None
            | Some st2 \<Rightarrow>
                (if \<not> worker_running st2
                 then Some ((message_emacs ''[Emigo Error] Failed to restart LLM worker after cancellation.''
                               (print_stderr ''ERROR: Failed to restart LLM worker after cancellation.'' [] st2))
                              \<lparr>active_interaction_session := None\<rparr>,
                            Returned False)
                 else if \<not> processor_thread_alive e
                 then (case stop_llm_worker e
                              (message_emacs ''[Emigo Error] Failed to restart worker queue processor thread.''
                                 (print_stderr ''ERROR: Failed to restart worker queue processor thread.'' [] st2)) of
                         None \<Rightarrow> None
                       | Some st3 \<Rightarrow> Some (st3\<lparr>active_interaction_session := None\<rparr>, Returned False))
                 else (case rollback_history e sp (st2\<lparr>worker_processor_thread := True\<rparr>) of
                         (st3, Raised x) \<Rightarrow> Some (st3, Raised x)
                       | (st3, Returned u) \<Rightarrow>
                           Some (eval_in_emacs ''emigo--flush-buffer''
                                   [JStr sp, JStr (nl @ ''[Interaction cancelled by user.]'' @ nl),
                                    JStr ''warning'']
                                   (st3\<lparr>active_interaction_session := None\<rparr>),
                                 Returned True)))))"

section \<open>Submitting\<close>

text \<open>
  \<^verbatim>\<open>type(x)\<close> as an f-string prints it, and \<^verbatim>\<open>'/' in model\<close>: membership in a string, a
  list or a dict's keys; TypeError on a value that is not a container.
\<close>

definition type_name :: "json \<Rightarrow> string" where
  "type_name x =
     (case x of
        JNull \<Rightarrow> ''<class 'NoneType'>''
      | JBool b \<Rightarrow> ''<class 'bool'>''
      | JNum n \<Rightarrow> ''<class 'int'>''
      | JStr s \<Rightarrow> ''<class 'str'>''
      | JList xs \<Rightarrow> ''<class 'list'>''
      | JDict d \<Rightarrow> ''<class 'dict'>'')"

definition contains_slash :: "json \<Rightarrow> bool option" where
  "contains_slash model =
     (case model of
        JStr s \<Rightarrow> Some (CHR ''/'' \<in> set s)
      | JList xs \<Rightarrow> Some (JStr ''/'' \<in> set xs)
      | JDict d \<Rightarrow> Some (dict_has d ''/'')
      | _ \<Rightarrow> None)"

text \<open>The history snapshot as it is serialised: a list of (timestamp, message) pairs.\<close>

definition history_json :: "(nat \<times> json) list \<Rightarrow> json" where
  "history_json h = JList (map (\<lambda>(t, m). JList [JNum (int t), m]) h)"

text \<open>
  Lines 631 to 647: the effective prompt, the request envelope, and the send.
  \<^verbatim>\<open>session_history[-1][1].get\<close> raises AttributeError on an entry that is not a dict.
\<close>

definition send_request ::
  "env \<Rightarrow> string \<Rightarrow> Context \<Rightarrow> string \<Rightarrow> json \<Rightarrow> json \<Rightarrow> json \<Rightarrow> emigo \<Rightarrow> (emigo \<times> unit outcome) option" where
  "send_request e prompt c context_str model base_url api_key st =
     (case (if history c = [] then Some (JStr prompt)
            else (case snd (last (history c)) of
                    JDict m \<Rightarrow> Some (dict_get m ''content'' (JStr []))
                  | _ \<Rightarrow> None)) of
        None \<Rightarrow> Some (st, Raised AttributeError)
      | Some effective_prompt \<Rightarrow>
          (case send_to_worker e
                  [(''type'', JStr ''interaction_request''),
                   (''data'', JDict
                      [(''session_path'', session_path c),
                       (''prompt'', effective_prompt),
                       (''history'', history_json (history c)),
                       (''config'', JDict
                          [(''model'', model), (''api_key'', api_key), (''base_url'', base_url),
                           (''verbose'', JBool (verbose c))]),
                       (''chat_files'', JList (map JStr (chat_files c))),
                       (''context'', JStr context_str)])]
                  st of
             None \<Rightarrow> None
           | Some st1 \<Rightarrow> Some (st1, Returned ())))"

text \<open>
  Lines 600 to 619: the model configuration is fetched from Emacs and validated, after
  the session has been updated.
\<close>

definition configure_and_send ::
  "env \<Rightarrow> string \<Rightarrow> string \<Rightarrow> Context \<Rightarrow> string \<Rightarrow> emigo \<Rightarrow> (emigo \<times> unit outcome) option" where
  "configure_and_send e sp prompt c context_str st =
     (case emacs_vars e of
        None \<Rightarrow>
          Some ((message_emacs (''Error retrieving Emacs variables for context '' @ sp @ ''.'') st)
                  \<lparr>active_interaction_session := None\<rparr>,
                Returned ())
      | Some vars_result \<Rightarrow>
          (if length vars_result < 3
           then Some ((message_emacs (''Error retrieving Emacs variables for context '' @ sp @ ''.'') st)
                        \<lparr>active_interaction_session := None\<rparr>,
                      Returned ())
           else (let model = vars_result ! 0;
                     base_url = vars_result ! 1;
                     api_key = vars_result ! 2
                 in case (if \<not> truthy model then Some False else contains_slash model) of
                      None \<Rightarrow> Some (st, Raised TypeError)
                    | Some False \<Rightarrow>
                        Some ((message_emacs
                                 (''[Emigo Error] Invalid or missing emigo-model: '' @ sq @ fmt e model @ sq
                                    @ ''. Expected 'provider/model_name' (e.g., 'ollama/llama3', 'openai/gpt-4o').'')
                                 (print_stderr ''ERROR: {error_msg}'' [model] st))
                                \<lparr>active_interaction_session := None\<rparr>,
                              Returned ())
                    | Some True \<Rightarrow> send_request e prompt c context_str model base_url api_key st)))"

text \<open>
  Lines 564 to 593: the new session is marked active, its Context is fetched or created,
  and the history is replaced by the override or extended by the prompt. \<open>history_dicts\<close>
  is the override when one was given.
\<close>

definition prepare_interaction ::
  "env \<Rightarrow> string \<Rightarrow> string \<Rightarrow> json list option \<Rightarrow> emigo \<Rightarrow> (emigo \<times> unit outcome) option" where
  "prepare_interaction e sp prompt history_dicts st =
     (case get_or_create_context e (JStr sp) (st\<lparr>active_interaction_session := Some sp\<rparr>) of
        (st1, Raised x) \<Rightarrow> Some (st1, Raised x)
      | (st1, Returned None) \<Rightarrow>
          Some ((eval_in_emacs ''emigo--flush-buffer''
                   [JStr (''invalid-context-'' @ sp),
                    JStr (''[Error: Invalid context path '' @ sq @ sp @ sq @ '']''), JStr ''error''] st1)
                  \<lparr>active_interaction_session := None\<rparr>,
                Returned ())
      | (st1, Returned (Some c)) \<Rightarrow>
          (case history_dicts of
             Some hs \<Rightarrow>
               (case generate_context_string e JNull (set_history (now e) hs c) of
                  (context_str, c1) \<Rightarrow>
                    configure_and_send e sp prompt c1 context_str
                      (store_context (JStr sp) c1
                         (eval_in_emacs ''emigo--flush-buffer''
                            [session_path c, JStr (nl @ ''[History revised by user]'' @ nl), JStr ''info'']
                            st1)))
           | None \<Rightarrow>
               (case generate_context_string e (JStr prompt)
                       (append_history (now e)
                          (JDict [(''role'', JStr ''user''), (''content'', JStr prompt)]) c) of
                  (context_str, c1) \<Rightarrow>
                    configure_and_send e sp prompt c1 context_str
                      (store_context (JStr sp) c1
                         (eval_in_emacs ''emigo--flush-buffer''
                            [session_path c, JStr (nl @ nl @ ''User:'' @ nl @ prompt @ nl), JStr ''user'']
                            st1)))))"

text \<open>
  \<^verbatim>\<open>emigo_send\<close>. \<open>history_override\<close> is \<open>JNull\<close> when the caller gave none; a value that is
  true and not a list is refused (line 524), and only a value that is true counts as an
  override. The gate of line 533 tests the active session for truth, so that the empty
  string counts as no session. The answer of
  \<^verbatim>\<open>yes-or-no-p\<close> is \<open>yes_or_no_p\<close> of the environment, \<open>None\<close> when asking raised. An
  exception out of \<^verbatim>\<open>cancel_llm_interaction\<close> is caught by the handler of line 559.
\<close>

definition override_refused :: "json \<Rightarrow> bool" where
  "override_refused history_override =
     (truthy history_override \<and> (case history_override of JList hs \<Rightarrow> False | _ \<Rightarrow> True))"

definition override_dicts :: "json \<Rightarrow> json list option" where
  "override_dicts history_override =
     (case history_override of JList hs \<Rightarrow> (if hs = [] then None else Some hs) | _ \<Rightarrow> None)"

definition emigo_send :: "env \<Rightarrow> string \<Rightarrow> string \<Rightarrow> json \<Rightarrow> emigo \<Rightarrow> (emigo \<times> unit outcome) option" where
  "emigo_send e sp prompt history_override st =
     (if override_refused history_override
      then Some (message_emacs
                   (''[Emigo Error] Received history_override is not a list: '' @ type_name history_override)
                   st,
                 Returned ())
      else (let history_dicts = override_dicts history_override
            in case active_interaction_session st of
                 None \<Rightarrow> prepare_interaction e sp prompt history_dicts st
               | Some a \<Rightarrow>
                   (if a = [] then prepare_interaction e sp prompt history_dicts st
                    else (case yes_or_no_p e of
                            None \<Rightarrow>
                              Some (message_emacs
                                      (''[Emigo Error] Failed to ask for cancellation confirmation: '' @ exn_text e)
                                      st,
                                    Returned ())
                          | Some True \<Rightarrow>
                              (case cancel_llm_interaction e a st of
                                 None \<Rightarrow> None
                               | Some (st1, Raised x) \<Rightarrow>
                                   Some (message_emacs
                                           (''[Emigo Error] Failed to ask for cancellation confirmation: ''
                                              @ exn_text e)
                                           st1,
                                         Returned ())
                               | Some (st1, Returned False) \<Rightarrow>
                                   Some (message_emacs ''[Emigo Error] Failed to cancel previous interaction.'' st1,
                                         Returned ())
                               | Some (st1, Returned True) \<Rightarrow>
                                   prepare_interaction e sp prompt history_dicts st1)
                          | Some False \<Rightarrow>
                              Some (eval_in_emacs ''message''
                                      [JStr (''[Emigo] LLM busy with '' @ a @ ''. ''
                                               @ (if truthy history_override then ''Revised history''
                                                  else ''New prompt'')
                                               @ '' ignored.'')]
                                      st,
                                    Returned ())))))"

section \<open>Threads and schedules\<close>

text \<open>
  \<^verbatim>\<open>Emigo.__init__\<close> from line 103 on: the worker is started, then the router thread.
\<close>

definition blank :: emigo where
  "blank =
     \<lparr>sessions = Map.empty, llm_worker_process = None, llm_worker_lock = False,
      worker_output_queue = [], active_interaction_session = None,
      worker_processor_thread = False, spawned = 0, routed = [], emacs = [], stderr = []\<rparr>"

definition init :: "env \<Rightarrow> emigo option" where
  "init e = map_option (\<lambda>st. st\<lparr>worker_processor_thread := True\<rparr>) (start_llm_worker e blank)"

text \<open>
  The orchestrator's four kinds of activity, as the steps of a schedule: a request of the
  front end (\<^verbatim>\<open>emigo_send\<close>, \<^verbatim>\<open>cancel_llm_interaction\<close>), the run of a reader thread over the
  reads of the process it captured, and the router thread taking what is in the queue.
  A schedule stops (\<open>None\<close>) when a request waits for ever on the lock.
\<close>

datatype event =
    Submit env string string json
  | Cancel env string
  | Pump "popen option" "readline list"
  | Router env

fun step :: "event \<Rightarrow> emigo \<Rightarrow> emigo option" where
  "step (Submit e sp prompt history_override) st = map_option fst (emigo_send e sp prompt history_override st)"
| "step (Cancel e sp) st = map_option fst (cancel_llm_interaction e sp st)"
| "step (Pump proc reads) st = read_worker_stdout proc reads st"
| "step (Router e) st = Some (if worker_processor_thread st then process_worker_queue e st else st)"

fun run :: "event list \<Rightarrow> emigo \<Rightarrow> emigo option" where
  "run [] st = Some st"
| "run (ev # evs) st = (case step ev st of None \<Rightarrow> None | Some st1 \<Rightarrow> run evs st1)"

text \<open>The sessions a state records as the active interaction.\<close>

definition busy :: "emigo \<Rightarrow> string set" where
  "busy st = {s. active_interaction_session st = Some s}"

section \<open>Notions used in the statements\<close>

text \<open>
  The fields of the state that concern the worker process, the lock, the queue and the
  router thread: what the handling of a worker message must leave alone.
\<close>

definition plumbing :: "emigo \<Rightarrow> popen option \<times> bool \<times> qitem list \<times> bool \<times> nat \<times> (nat \<times> nat) list" where
  "plumbing st = (llm_worker_process st, llm_worker_lock st, worker_output_queue st,
                  worker_processor_thread st, spawned st, routed st)"

text \<open>
  The pump's loop ends when the handle or its stdout is missing, or when the reads hold an
  end of stream or an exception.
\<close>

definition pump_terminates :: "popen option \<Rightarrow> readline list \<Rightarrow> bool" where
  "pump_terminates proc reads =
     (case proc of None \<Rightarrow> True | Some p \<Rightarrow> if has_stdout p then stream_ends reads else True)"

text \<open>
  A line the router cannot use: it does not decode, or handling the decoded message
  raises. A queue that holds a sentinel.
\<close>

definition bad_line :: "env \<Rightarrow> string \<Rightarrow> emigo \<Rightarrow> bool" where
  "bad_line e line st =
     (case loads e line of None \<Rightarrow> True | Some m \<Rightarrow> snd (process_message e m st) \<noteq> None)"

definition has_sentinel :: "qitem list \<Rightarrow> bool" where
  "has_sentinel q = list_ex (\<lambda>x. snd x = None) q"


definition context_of :: "emigo \<Rightarrow> json \<Rightarrow> Context" where
  "context_of st sp = (case sessions st sp of None \<Rightarrow> new_Context sp True | Some c \<Rightarrow> c)"

text \<open>
  The gate is idle when line 533 finds no active session. The model identifier is
  rejected when the three variables were fetched and line 614 refuses the first.
\<close>

definition idle :: "emigo \<Rightarrow> bool" where
  "idle st = (case active_interaction_session st of None \<Rightarrow> True | Some a \<Rightarrow> a = [])"

definition model_rejected :: "env \<Rightarrow> bool" where
  "model_rejected e =
     (case emacs_vars e of
        None \<Rightarrow> False
      | Some vs \<Rightarrow> 3 \<le> length vs \<and> (if truthy (vs ! 0) then contains_slash (vs ! 0) = Some False else True))"

text \<open>
  The entry \<^verbatim>\<open>emigo_send\<close> appends for a prompt; whether a history ends with a user
  message, as line 730 tests it; and the Context after the rollback of lines 725 to 742.
\<close>

definition user_turn :: "string \<Rightarrow> json" where
  "user_turn prompt = JDict [(''role'', JStr ''user''), (''content'', JStr prompt)]"

definition user_last :: "Context \<Rightarrow> bool" where
  "user_last c =
     (history c \<noteq> [] \<and>
      (case snd (last (history c)) of
         JDict m \<Rightarrow> dict_get m ''role'' JNull = JStr ''user''
       | _ \<Rightarrow> False))"

definition rolled_back :: "nat \<Rightarrow> Context \<Rightarrow> Context" where
  "rolled_back t c =
     invalidate_cache (if user_last c then set_history t (butlast (messages c)) c else c)"


text \<open>
  The sessions a schedule submits a request for; and a step that leaves the active session
  as it was or clears it.
\<close>

fun submitted :: "event list \<Rightarrow> string set" where
  "submitted [] = {}"
| "submitted (Submit e sp prompt history_override # evs) = insert sp (submitted evs)"
| "submitted (ev # evs) = submitted evs"

definition kept_or_cleared :: "emigo \<Rightarrow> emigo \<Rightarrow> bool" where
  "kept_or_cleared st st' =
     (active_interaction_session st' = active_interaction_session st
      \<or> active_interaction_session st' = None)"

section \<open>Concrete inputs\<close>

text \<open>
  A running worker, the first one spawned; an environment in which everything works and
  the user declines when asked; the state after start-up; a state in which session
  \<open>/proj\<close> is the active interaction, with its prompt as the only entry of its history;
  the same after the worker has died; the same with stale entries in the queue; and a
  \<open>finished\<close> message for \<open>/proj\<close>.
\<close>

definition worker1 :: popen where
  "worker1 = \<lparr>pid = 1, exited = False, has_stdin = True, has_stdout = True,
              stdin_closed = False, written = []\<rparr>"

definition env_ok :: env where
  "env_ok =
     \<lparr>loads = (\<lambda>line. None), filter_str = (\<lambda>s. s), filter_other = (\<lambda>x. Some x),
      py_str = (\<lambda>x. ''None''), isdir = (\<lambda>p. True), isdir_fd = (\<lambda>n. False), now = 7,
      context_string = (\<lambda>c prompt. ([], chat_files c, True)),
      yes_or_no_p = Some False,
      emacs_vars = Some [JStr ''openai/gpt-4o'', JNull, JNull],
      spawn = Spawn_running, reader_thread_alive = True, stderr_thread_alive = True,
      processor_thread_alive = True, terminate = Terminated, join_in_time = True,
      stdin_write = Written, exn_text = ''error''\<rparr>"

definition started :: emigo where
  "started = blank\<lparr>llm_worker_process := Some worker1, spawned := 1, worker_processor_thread := True\<rparr>"

definition proj_context :: Context where
  "proj_context =
     \<lparr>session_path = JStr ''/proj'', history = [(5, user_turn ''add a README'')],
      chat_files = [], cache_valid = True, verbose = True\<rparr>"

definition busy_proj :: emigo where
  "busy_proj =
     \<lparr>sessions = [JStr ''/proj'' \<mapsto> proj_context], llm_worker_process = Some worker1,
      llm_worker_lock = False, worker_output_queue = [],
      active_interaction_session = Some ''/proj'', worker_processor_thread = True,
      spawned = 1, routed = [], emacs = [], stderr = []\<rparr>"

definition crashed_proj :: emigo where
  "crashed_proj = busy_proj\<lparr>llm_worker_process := Some (worker1\<lparr>exited := True\<rparr>)\<rparr>"



lemmas eval_defs =
  emigo_send_def override_refused_def override_dicts_def prepare_interaction_def
  get_or_create_context_def os_path_isdir_def hashable_def store_context_def print_stderr_def
  new_Context_def append_history_def set_history_def generate_context_string_def configure_and_send_def
  contains_slash_def send_request_def send_to_worker_def worker_running_def write_to_worker_def
  eval_in_emacs_def message_emacs_def env_ok_def blank_def worker1_def messages_def user_turn_def Let_def
  cancel_llm_interaction_def restart_worker_def stop_llm_worker_def stop_process_def put_def
  process_worker_queue_def drain_queue_def start_llm_worker_def spawn_worker_def rollback_history_def
  invalidate_cache_def dict_get_def read_worker_stdout_def pump_tag_def started_def busy_proj_def
  proj_context_def init_def history_json_def

text \<open>The state after start-up is what \<^verbatim>\<open>__init__\<close> leaves when everything works.\<close>

lemma init_started: "init env_ok = Some started"
  by (simp add: init_def start_llm_worker_def blank_def worker_running_def spawn_worker_def
        env_ok_def worker1_def started_def)

section \<open>The stdout pump always signals its end\<close>

lemma pump_lines_ends:
  "stream_ends reads \<Longrightarrow>
     \<exists>st' q. pump_lines g reads st = Some st' \<and> worker_output_queue st' = worker_output_queue st @ q"
proof (induction reads arbitrary: st)
  case Nil
  then show ?case by simp
next
  case (Cons r rs)
  show ?case
  proof (cases r)
    case (Line l)
    show ?thesis
    proof (cases "l = []")
      case True
      with Line show ?thesis by simp
    next
      case False
      with Line Cons.prems have "stream_ends rs" by simp
      from Cons.IH [OF this, of "put (g, Some (strip l)) st"]
      obtain st' q where "pump_lines g rs (put (g, Some (strip l)) st) = Some st'"
        and "worker_output_queue st' = worker_output_queue (put (g, Some (strip l)) st) @ q"
        by blast
      with Line False show ?thesis by (simp add: put_def)
    qed
  next
    case Read_ValueError
    then show ?thesis by (simp add: print_stderr_def)
  next
    case Read_Exception
    then show ?thesis by (simp add: print_stderr_def)
  qed
qed

lemma pump_lines_waits:
  "\<not> stream_ends reads \<Longrightarrow> pump_lines g reads st = None"
  by (induction reads arbitrary: st rule: stream_ends.induct) auto

text \<open>
  C9. Whenever the stdout pump terminates: on end of stream, on a read error, or because
  the process handle or its stdout is missing when it starts, it has appended the
  sentinel to the queue after every line it queued. It fails to terminate only when the
  worker keeps its stdout open and silent.
\<close>

theorem pump_always_signals:
  "(if pump_terminates proc reads
    then \<exists>st' q. read_worker_stdout proc reads st = Some st'
           \<and> worker_output_queue st' = worker_output_queue st @ q @ [(pump_tag proc, None)]
    else read_worker_stdout proc reads st = None)"
proof (cases "case proc of None \<Rightarrow> False | Some p \<Rightarrow> has_stdout p")
  case False
  then have t: "pump_terminates proc reads"
    by (auto simp: pump_terminates_def split: option.splits)
  from False have "read_worker_stdout proc reads st =
      Some (put (pump_tag proc, None)
             (print_stderr ''Worker process or stdout not available for reading.'' [] st))"
    by (simp add: read_worker_stdout_def)
  then have "\<exists>st'. read_worker_stdout proc reads st = Some st'
           \<and> worker_output_queue st' = worker_output_queue st @ [] @ [(pump_tag proc, None)]"
    by (simp add: put_def print_stderr_def)
  with t show ?thesis by metis
next
  case True
  then have t: "pump_terminates proc reads = stream_ends reads"
    by (auto simp: pump_terminates_def split: option.splits)
  show ?thesis
  proof (cases "stream_ends reads")
    case e: True
    from pump_lines_ends [OF e, of "pump_tag proc" st]
    obtain st1 q where p: "pump_lines (pump_tag proc) reads st = Some st1"
      and q: "worker_output_queue st1 = worker_output_queue st @ q" by blast
    from True p have "read_worker_stdout proc reads st =
        Some (put (pump_tag proc, None) (print_stderr ''Signaling end of worker output.'' [] st1))"
      by (simp add: read_worker_stdout_def)
    with q have "\<exists>st'. read_worker_stdout proc reads st = Some st'
           \<and> worker_output_queue st' = worker_output_queue st @ q @ [(pump_tag proc, None)]"
      by (simp add: put_def print_stderr_def)
    with t e show ?thesis by auto
  next
    case e: False
    with True t show ?thesis
      by (simp add: read_worker_stdout_def pump_lines_waits)
  qed
qed

text \<open>
  At a concrete input: one line, then end of stream.
\<close>

theorem pump_always_signals_witness:
  "pump_terminates (Some worker1) [Line ''{}'', Line []]
   \<and> (\<exists>st' q. read_worker_stdout (Some worker1) [Line ''{}'', Line []] blank = Some st'
           \<and> worker_output_queue st' = worker_output_queue blank @ q @ [(pump_tag (Some worker1), None)])"
  using pump_always_signals [of "Some worker1" "[Line ''{}'', Line []]" blank]
  by (simp add: pump_terminates_def worker1_def)

section \<open>What handling a worker message leaves alone\<close>

lemma plumbing_simps [simp]:
  "plumbing (eval_in_emacs f args st) = plumbing st"
  "plumbing (message_emacs txt st) = plumbing st"
  "plumbing (print_stderr txt args st) = plumbing st"
  "plumbing (store_context sp c st) = plumbing st"
  "plumbing (st\<lparr>active_interaction_session := a\<rparr>) = plumbing st"
  "plumbing (clear_active sp st) = plumbing st"
  by (simp_all add: plumbing_def eval_in_emacs_def message_emacs_def print_stderr_def
        store_context_def clear_active_def)

lemma emacs_simps [simp]:
  "emacs (eval_in_emacs f args st) = emacs st @ [Eval_in_emacs f args]"
  "emacs (message_emacs txt st) = emacs st @ [Message_emacs txt]"
  "emacs (print_stderr txt args st) = emacs st"
  "emacs (store_context sp c st) = emacs st"
  "emacs (clear_active sp st) = emacs st"
  by (simp_all add: eval_in_emacs_def message_emacs_def print_stderr_def store_context_def
        clear_active_def)

lemma get_or_create_context_plumbing [simp]:
  "plumbing (fst (get_or_create_context e sp st)) = plumbing st"
  by (simp add: get_or_create_context_def split: option.splits bool.splits)

lemma get_or_create_context_raises:
  "get_or_create_context e sp st = (st1, Raised x) \<Longrightarrow> st1 = st"
  by (simp add: get_or_create_context_def split: option.splits bool.splits if_splits)

lemma replace_history_plumbing [simp]:
  "plumbing (fst (replace_history e sp fh st)) = plumbing st"
proof (cases "get_or_create_context e sp st")
  case (Pair st1 r)
  have "plumbing (fst (get_or_create_context e sp st)) = plumbing st" by simp
  with Pair have "plumbing st1 = plumbing st" by simp
  with Pair show ?thesis
    by (simp add: replace_history_def split: outcome.splits option.splits)
qed

lemma replace_history_raises:
  "replace_history e sp fh st = (st1, Some x) \<Longrightarrow> st1 = st"
  by (auto simp: replace_history_def split: prod.splits outcome.splits option.splits
           dest: get_or_create_context_raises)

lemma update_history_plumbing [simp]:
  "plumbing (fst (update_history e d sp st)) = plumbing st"
  by (simp add: update_history_def split: json.splits)

lemma update_history_raises:
  "update_history e d sp st = (st1, Some x) \<Longrightarrow> st1 = st"
  by (auto simp: update_history_def split: json.splits if_splits dest: replace_history_raises)

lemma process_stream_plumbing [simp]:
  "plumbing (fst (process_stream e d sp st)) = plumbing st"
  by (simp add: process_stream_def Let_def split: option.splits)

lemma process_error_plumbing [simp]:
  "plumbing (process_error e d sp st) = plumbing st"
  by (simp add: process_error_def)

lemma process_finished_plumbing [simp]:
  "plumbing (fst (process_finished e d sp st)) = plumbing st"
proof -
  let ?s = "clear_active sp
                (print_stderr
                   ''Worker finished interaction for {session_path}. Status: {status}. Message: {finish_message}''
                   [sp, dict_get d ''status'' (JStr ''unknown''), dict_get d ''message'' (JStr [])] st)"
  have "plumbing (fst (update_history e d sp ?s)) = plumbing st" by simp
  then show ?thesis
    by (cases "update_history e d sp ?s")
       (simp add: process_finished_def agent_finished_def split: option.splits)
qed

lemma process_message_plumbing [simp]:
  "plumbing (fst (process_message e m st)) = plumbing st"
  by (simp add: process_message_def Let_def split: json.splits)

lemma process_line_plumbing [simp]:
  "plumbing (process_line e line st) = plumbing st"
proof (cases "loads e line")
  case None
  then show ?thesis by (simp add: process_line_def)
next
  case (Some m)
  have "plumbing (fst (process_message e m st)) = plumbing st" by simp
  with Some show ?thesis
    by (cases "process_message e m st") (auto simp: process_line_def split: option.splits)
qed

lemma process_finished_raises:
  "process_finished e d sp st = (st1, Some x) \<Longrightarrow> emacs st1 = emacs st"
  by (auto simp: process_finished_def split: prod.splits option.splits dest!: update_history_raises)

lemma process_stream_raises:
  "process_stream e d sp st = (st1, Some x) \<Longrightarrow> emacs st1 = emacs st"
  by (auto simp: process_stream_def Let_def split: option.splits)

lemma process_message_raises:
  "process_message e m st = (st1, Some x) \<Longrightarrow> emacs st1 = emacs st"
  by (cases m)
     (auto simp: process_message_def Let_def split: if_splits
           dest: process_finished_raises process_stream_raises)

lemma router_loop_thread:
  "worker_processor_thread (router_loop e q st) = (worker_processor_thread st \<and> \<not> has_sentinel q)"
proof (induction e q st rule: router_loop.induct)
  case (1 e st)
  then show ?case by (simp add: has_sentinel_def)
next
  case (2 e g q st)
  then show ?case by (simp add: has_sentinel_def print_stderr_def)
next
  case (3 e g line q st)
  let ?s = "st\<lparr>worker_output_queue := q, routed := routed st @ [(g, spawned st)]\<rparr>"
  have "plumbing (process_line e line ?s) = plumbing ?s" by simp
  then have "worker_processor_thread (process_line e line ?s) = worker_processor_thread st"
    by (simp add: plumbing_def)
  with 3 show ?case by (simp add: has_sentinel_def)
qed

lemma router_loop_queue:
  "worker_output_queue (router_loop e q st) = drop (Suc (length (takeWhile (\<lambda>x. snd x \<noteq> None) q))) q"
proof (induction e q st rule: router_loop.induct)
  case (1 e st)
  then show ?case by simp
next
  case (2 e g q st)
  then show ?case by (simp add: print_stderr_def)
next
  case (3 e g line q st)
  then show ?case by simp
qed

section \<open>Malformed lines do not stop the router\<close>

text \<open>
  C8. A queued line that does not decode, or whose handling raises, makes the router
  print a line on stderr and send nothing to Emacs; the loop goes on with the next entry.
  After the router has worked through a queue, its thread is still alive exactly when
  the queue held no sentinel, and what is left of the queue is what followed the first
  sentinel: no line, whatever its content, ends the loop.
\<close>

theorem bad_lines_are_skipped:
  "(bad_line e line st \<longrightarrow>
      emacs (process_line e line st) = emacs st
      \<and> (\<exists>txt args. stderr (process_line e line st) \<noteq> [] \<and> last (stderr (process_line e line st)) = Print txt args
            \<and> (txt = ''Received invalid JSON from worker queue: {line}''
                \<or> txt = ''Error processing worker queue message: {e}'')))
   \<and> router_loop e ((g, Some line) # q) st =
       router_loop e q (process_line e line
                          (st\<lparr>worker_output_queue := q, routed := routed st @ [(g, spawned st)]\<rparr>))
   \<and> worker_processor_thread (router_loop e q st) = (worker_processor_thread st \<and> \<not> has_sentinel q)
   \<and> worker_output_queue (router_loop e q st) = drop (Suc (length (takeWhile (\<lambda>x. snd x \<noteq> None) q))) q"
proof -
  have bad: "emacs (process_line e line st) = emacs st
      \<and> (\<exists>txt args. stderr (process_line e line st) \<noteq> [] \<and> last (stderr (process_line e line st)) = Print txt args
            \<and> (txt = ''Received invalid JSON from worker queue: {line}''
                \<or> txt = ''Error processing worker queue message: {e}''))"
    if b: "bad_line e line st"
  proof (cases "loads e line")
    case None
    then show ?thesis by (simp add: process_line_def print_stderr_def)
  next
    case (Some m)
    with b obtain st1 x where pm: "process_message e m st = (st1, Some x)"
      by (cases "process_message e m st") (auto simp: bad_line_def)
    from process_message_raises [OF pm] have "emacs st1 = emacs st" .
    with Some pm show ?thesis by (simp add: process_line_def print_stderr_def)
  qed
  show ?thesis
    using bad router_loop_thread [of e q st] router_loop_queue [of e q st] by simp
qed

text \<open>
  At a concrete input: a line that does not decode, alone and followed by a sentinel.
\<close>

theorem bad_lines_are_skipped_witness:
  "bad_line env_ok ''not json'' started
   \<and> emacs (process_line env_ok ''not json'' started) = emacs started
   \<and> last (stderr (process_line env_ok ''not json'' started))
       = Print ''Received invalid JSON from worker queue: {line}'' [JStr ''not json'']
   \<and> worker_processor_thread (router_loop env_ok [(1, Some ''not json'')] started)
   \<and> \<not> worker_processor_thread (router_loop env_ok [(1, Some ''not json''), (1, None)] started)"
  using bad_lines_are_skipped [of env_ok "''not json''" started 1 "[]"]
        bad_lines_are_skipped [of env_ok "''not json''" started 1 "[(1, Some ''not json''), (1, None)]"]
  by (simp add: bad_line_def env_ok_def process_line_def print_stderr_def started_def blank_def has_sentinel_def)

section \<open>A finished message\<close>

lemma get_or_create_context_dir:
  "isdir e S \<Longrightarrow>
     \<exists>st1. get_or_create_context e (JStr S) st = (st1, Returned (Some (context_of st (JStr S))))
       \<and> sessions st1 = (sessions st)(JStr S \<mapsto> context_of st (JStr S))
       \<and> emacs st1 = emacs st \<and> plumbing st1 = plumbing st
       \<and> active_interaction_session st1 = active_interaction_session st"
  by (auto simp: get_or_create_context_def os_path_isdir_def hashable_def context_of_def
        store_context_def print_stderr_def plumbing_def split: option.splits)

lemma get_or_create_context_nodir:
  "\<not> isdir e S \<Longrightarrow>
     \<exists>st1. get_or_create_context e (JStr S) st = (st1, Returned None)
       \<and> sessions st1 = sessions st \<and> plumbing st1 = plumbing st
       \<and> active_interaction_session st1 = active_interaction_session st"
  by (auto simp: get_or_create_context_def os_path_isdir_def eval_in_emacs_def print_stderr_def plumbing_def)





section \<open>Cancelling a session that is not active\<close>

text \<open>
  C10. \<^verbatim>\<open>cancel_llm_interaction\<close> for a session that is not the active one (also when none
  is active) returns False, and its only effect is one message to Emacs: sessions,
  worker process, queue, router thread and active session are as they were.
\<close>

theorem cancel_of_inactive_session_is_noop:
  assumes "active_interaction_session st \<noteq> Some sp"
  shows "\<exists>st'. cancel_llm_interaction e sp st = Some (st', Returned False)
           \<and> st' = st\<lparr>emacs := emacs st @ [Message_emacs (''No active interaction found for session '' @ sp @ '' to cancel.'')]\<rparr>
           \<and> sessions st' = sessions st
           \<and> llm_worker_process st' = llm_worker_process st
           \<and> worker_output_queue st' = worker_output_queue st
           \<and> worker_processor_thread st' = worker_processor_thread st
           \<and> active_interaction_session st' = active_interaction_session st"
  using assms by (simp add: cancel_llm_interaction_def message_emacs_def)

text \<open>
  At a concrete input: \<open>/other\<close> is cancelled while \<open>/proj\<close> is active.
\<close>

theorem cancel_of_inactive_session_is_noop_witness:
  "active_interaction_session busy_proj \<noteq> Some ''/other''
   \<and> (\<exists>st'. cancel_llm_interaction env_ok ''/other'' busy_proj = Some (st', Returned False)
         \<and> sessions st' = sessions busy_proj
         \<and> llm_worker_process st' = Some worker1
         \<and> active_interaction_session st' = Some ''/proj'')"
proof -
  have h: "active_interaction_session busy_proj \<noteq> Some ''/other''"
    by (simp add: busy_proj_def)
  from cancel_of_inactive_session_is_noop [OF h, of env_ok]
  show ?thesis using h by (auto simp: busy_proj_def)
qed

section \<open>A declined confirmation\<close>

text \<open>
  C7. When a request arrives while a session \<open>a\<close> is active and the user answers no to
  \<^verbatim>\<open>yes-or-no-p\<close>, \<^verbatim>\<open>emigo_send\<close> returns with \<open>a\<close> still active, no session touched and
  nothing sent to the worker; its only effect is the message to Emacs that the request
  was ignored. (The question is asked only for a request that line 524 has not refused.)
\<close>

theorem declined_confirmation_drops_request:
  assumes "active_interaction_session st = Some a" and "a \<noteq> []"
      and "yes_or_no_p e = Some False" and "\<not> override_refused history_override"
  shows "\<exists>st'. emigo_send e sp prompt history_override st = Some (st', Returned ())
           \<and> st' = st\<lparr>emacs := emacs st @
                      [Eval_in_emacs ''message''
                         [JStr (''[Emigo] LLM busy with '' @ a @ ''. ''
                                  @ (if truthy history_override then ''Revised history'' else ''New prompt'')
                                  @ '' ignored.'')]]\<rparr>
           \<and> active_interaction_session st' = Some a
           \<and> sessions st' = sessions st
           \<and> llm_worker_process st' = llm_worker_process st"
  using assms by (simp add: emigo_send_def eval_in_emacs_def)

text \<open>
  At a concrete input: a prompt for \<open>/a\<close> while \<open>/proj\<close> is active.
\<close>

theorem declined_confirmation_drops_request_witness:
  "active_interaction_session busy_proj = Some ''/proj'' \<and> yes_or_no_p env_ok = Some False
   \<and> \<not> override_refused JNull
   \<and> (\<exists>st'. emigo_send env_ok ''/a'' ''hello'' JNull busy_proj = Some (st', Returned ())
         \<and> emacs st' = [Eval_in_emacs ''message'' [JStr ''[Emigo] LLM busy with /proj. New prompt ignored.'']]
         \<and> active_interaction_session st' = Some ''/proj''
         \<and> sessions st' = sessions busy_proj
         \<and> llm_worker_process st' = Some worker1)"
proof -
  have h: "active_interaction_session busy_proj = Some ''/proj''" "''/proj'' \<noteq> []"
    "yes_or_no_p env_ok = Some False" "\<not> override_refused JNull"
    by (simp_all add: busy_proj_def env_ok_def override_refused_def)
  from declined_confirmation_drops_request [OF h, of "''/a''" "''hello''"]
  show ?thesis using h by (auto simp: busy_proj_def)
qed

section \<open>What a cancel leaves in the queue\<close>

lemma drain_empties: "fst (drain q n) = []"
  by (induction q n rule: drain.induct) simp_all

lemma drain_queue_fields [simp]:
  "worker_output_queue (drain_queue st) = []"
  "worker_processor_thread (drain_queue st) = worker_processor_thread st"
  "sessions (drain_queue st) = sessions st"
  "active_interaction_session (drain_queue st) = active_interaction_session st"
  "llm_worker_lock (drain_queue st) = llm_worker_lock st"
  using drain_empties [of "worker_output_queue st" 0]
  by (cases "drain (worker_output_queue st) 0"; simp add: drain_queue_def print_stderr_def)+

lemma spawn_worker_fields [simp]:
  "worker_output_queue (spawn_worker e st) = worker_output_queue st"
  "worker_processor_thread (spawn_worker e st) = worker_processor_thread st"
  "sessions (spawn_worker e st) = sessions st"
  "active_interaction_session (spawn_worker e st) = active_interaction_session st"
  "llm_worker_lock (spawn_worker e st) = llm_worker_lock st"
  by (simp_all add: spawn_worker_def message_emacs_def print_stderr_def Let_def split: spawn_result.splits)


lemma stop_process_fields [simp]:
  "worker_output_queue (stop_process e st) = worker_output_queue st"
  "worker_processor_thread (stop_process e st) = worker_processor_thread st"
  "sessions (stop_process e st) = sessions st"
  "active_interaction_session (stop_process e st) = active_interaction_session st"
  "llm_worker_lock (stop_process e st) = llm_worker_lock st"
  "spawned (stop_process e st) = spawned st"
  by (simp_all add: stop_process_def print_stderr_def Let_def split: option.splits terminate_result.splits)

lemma has_sentinel_append [simp]: "has_sentinel (q @ [(g, None)])"
  by (simp add: has_sentinel_def)








section \<open>The rollback of a cancelled prompt\<close>



lemma rolled_back_cache: "\<not> cache_valid (rolled_back t c)"
  by (simp add: rolled_back_def invalidate_cache_def set_history_def)


lemma router_loop_sentinel_only:
  "sessions (router_loop e [(g, None)] st) = sessions st"
  by (simp add: print_stderr_def)






section \<open>An invalid model identifier\<close>

lemma configure_and_send_rejected:
  assumes "model_rejected e"
  shows "\<exists>st'. configure_and_send e sp prompt c context_str st = Some (st', Returned ())
           \<and> active_interaction_session st' = None \<and> sessions st' = sessions st
           \<and> plumbing st' = plumbing st"
  using assms
  by (auto simp: configure_and_send_def model_rejected_def Let_def message_emacs_def
        print_stderr_def plumbing_def split: option.splits if_splits)

text \<open>
  C4, as the code has it. When an idle gate accepts a request for a directory \<open>sp\<close> and
  the model identifier is missing or has no \<open>/\<close>, \<^verbatim>\<open>emigo_send\<close> returns with no active
  session and with the worker process, the lock, the queue and the router thread as they
  were; but the session has been updated before the configuration was looked at: its
  history is the override, or the old history with the user turn appended.
\<close>

theorem invalid_model_aborts_after_update:
  assumes "idle st" and "\<not> override_refused history_override"
      and "isdir e sp" and "model_rejected e"
  shows "\<exists>st'. emigo_send e sp prompt history_override st = Some (st', Returned ())
           \<and> active_interaction_session st' = None
           \<and> plumbing st' = plumbing st
           \<and> map_option messages (sessions st' (JStr sp)) =
               Some (case override_dicts history_override of
                       Some hs \<Rightarrow> hs
                     | None \<Rightarrow> messages (context_of st (JStr sp)) @ [user_turn prompt])"
proof -
  let ?s = "st\<lparr>active_interaction_session := Some sp\<rparr>"
  from assms(1,2) have es: "emigo_send e sp prompt history_override st =
      prepare_interaction e sp prompt (override_dicts history_override) st"
    by (auto simp: emigo_send_def idle_def Let_def split: option.splits)
  from get_or_create_context_dir [OF assms(3), of ?s] obtain st1 where
    g: "get_or_create_context e (JStr sp) ?s = (st1, Returned (Some (context_of ?s (JStr sp))))"
    and p: "plumbing st1 = plumbing ?s" by blast
  have c: "context_of ?s (JStr sp) = context_of st (JStr sp)" by (simp add: context_of_def)
  have p': "plumbing st1 = plumbing st" using p by simp
  show ?thesis
  proof (cases "override_dicts history_override")
    case None
    let ?c = "append_history (now e) (JDict [(''role'', JStr ''user''), (''content'', JStr prompt)])
                (context_of st (JStr sp))"
    obtain cs c1 where gc: "generate_context_string e (JStr prompt) ?c = (cs, c1)"
      by (cases "generate_context_string e (JStr prompt) ?c")
    then have m: "messages c1 = messages (context_of st (JStr sp)) @ [user_turn prompt]"
      by (auto simp: generate_context_string_def append_history_def messages_def user_turn_def
            split: prod.splits)
    let ?t = "store_context (JStr sp) c1
                (eval_in_emacs ''emigo--flush-buffer''
                   [session_path (context_of st (JStr sp)), JStr (nl @ nl @ ''User:'' @ nl @ prompt @ nl), JStr ''user'']
                   st1)"
    from configure_and_send_rejected [OF assms(4), of sp prompt c1 cs ?t] obtain st' where
      cfg: "configure_and_send e sp prompt c1 cs ?t = Some (st', Returned ())"
           "active_interaction_session st' = None" "sessions st' = sessions ?t"
           "plumbing st' = plumbing ?t" by blast
    have "emigo_send e sp prompt history_override st = Some (st', Returned ())"
      using es None g c gc cfg(1) by (simp add: prepare_interaction_def)
    moreover have "sessions st' (JStr sp) = Some c1" using cfg(3) by (simp add: store_context_def)
    ultimately show ?thesis using cfg(2,4) p' m None by simp
  next
    case (Some hs)
    let ?c = "set_history (now e) hs (context_of st (JStr sp))"
    obtain cs c1 where gc: "generate_context_string e JNull ?c = (cs, c1)"
      by (cases "generate_context_string e JNull ?c")
    then have m: "messages c1 = hs"
      by (auto simp: generate_context_string_def set_history_def messages_def comp_def
            split: prod.splits)
    let ?t = "store_context (JStr sp) c1
                (eval_in_emacs ''emigo--flush-buffer''
                   [session_path (context_of st (JStr sp)), JStr (nl @ ''[History revised by user]'' @ nl), JStr ''info'']
                   st1)"
    from configure_and_send_rejected [OF assms(4), of sp prompt c1 cs ?t] obtain st' where
      cfg: "configure_and_send e sp prompt c1 cs ?t = Some (st', Returned ())"
           "active_interaction_session st' = None" "sessions st' = sessions ?t"
           "plumbing st' = plumbing ?t" by blast
    have "emigo_send e sp prompt history_override st = Some (st', Returned ())"
      using es Some g c gc cfg(1) by (simp add: prepare_interaction_def)
    moreover have "sessions st' (JStr sp) = Some c1" using cfg(3) by (simp add: store_context_def)
    ultimately show ?thesis using cfg(2,4) p' m Some by simp
  qed
qed

text \<open>
  At a concrete input: the model \<open>badmodel\<close>.
\<close>

theorem invalid_model_aborts_after_update_witness:
  "idle started \<and> \<not> override_refused JNull \<and> isdir env_ok ''/proj''
   \<and> model_rejected (env_ok\<lparr>emacs_vars := Some [JStr ''badmodel'', JNull, JNull]\<rparr>)
   \<and> (\<exists>st'. emigo_send (env_ok\<lparr>emacs_vars := Some [JStr ''badmodel'', JNull, JNull]\<rparr>)
               ''/proj'' ''add a README'' JNull started = Some (st', Returned ())
         \<and> active_interaction_session st' = None
         \<and> llm_worker_process st' = Some worker1
         \<and> map_option messages (sessions st' (JStr ''/proj'')) = Some [user_turn ''add a README''])"
proof -
  let ?e = "env_ok\<lparr>emacs_vars := Some [JStr ''badmodel'', JNull, JNull]\<rparr>"
  have h: "idle started" "\<not> override_refused JNull" "isdir ?e ''/proj''" "model_rejected ?e"
    by (simp_all add: idle_def started_def blank_def override_refused_def env_ok_def
          model_rejected_def contains_slash_def)
  from invalid_model_aborts_after_update [OF h, of "''add a README''"]
  show ?thesis using h
    by (auto simp: override_dicts_def context_of_def started_def blank_def new_Context_def
          messages_def plumbing_def env_ok_def)
qed

text \<open>
  C4 as stated fails: after the aborted request the history of \<open>/proj\<close>, which had no
  session before, holds the prompt.
\<close>

theorem invalid_model_after_append:
  "map_option (\<lambda>(st, r). (r, active_interaction_session st, map_option messages (sessions st (JStr ''/proj'')),
                         map_option written (llm_worker_process st)))
     (emigo_send (env_ok\<lparr>emacs_vars := Some [JStr ''badmodel'', JNull, JNull]\<rparr>) ''/proj'' ''add a README'' JNull started)
   = Some (Returned (), None, Some [user_turn ''add a README''], Some [])
   \<and> sessions started (JStr ''/proj'') = None"
  by (simp add: eval_defs)

section \<open>One active session\<close>

lemma kept_or_cleared_refl [simp]: "kept_or_cleared st st"
  by (simp add: kept_or_cleared_def)

lemma kept_or_cleared_trans:
  "kept_or_cleared st st1 \<Longrightarrow> kept_or_cleared st1 st2 \<Longrightarrow> kept_or_cleared st st2"
  by (auto simp: kept_or_cleared_def)

lemma active_simps [simp]:
  "active_interaction_session (eval_in_emacs f args st) = active_interaction_session st"
  "active_interaction_session (message_emacs txt st) = active_interaction_session st"
  "active_interaction_session (print_stderr txt args st) = active_interaction_session st"
  "active_interaction_session (store_context sp c st) = active_interaction_session st"
  "active_interaction_session (put x st) = active_interaction_session st"
  by (simp_all add: eval_in_emacs_def message_emacs_def print_stderr_def store_context_def put_def)

lemma clear_active_kept [simp]: "kept_or_cleared st (clear_active sp st)"
  by (simp add: clear_active_def kept_or_cleared_def)

lemma get_or_create_context_active [simp]:
  "active_interaction_session (fst (get_or_create_context e sp st)) = active_interaction_session st"
  by (simp add: get_or_create_context_def split: option.splits bool.splits)

lemma replace_history_active [simp]:
  "active_interaction_session (fst (replace_history e sp fh st)) = active_interaction_session st"
proof (cases "get_or_create_context e sp st")
  case (Pair st1 r)
  have "active_interaction_session (fst (get_or_create_context e sp st)) = active_interaction_session st"
    by simp
  with Pair show ?thesis
    by (simp add: replace_history_def split: outcome.splits option.splits)
qed

lemma update_history_active [simp]:
  "active_interaction_session (fst (update_history e d sp st)) = active_interaction_session st"
  by (simp add: update_history_def split: json.splits)

lemma process_finished_kept: "kept_or_cleared st (fst (process_finished e d sp st))"
proof -
  let ?s = "clear_active sp
                (print_stderr
                   ''Worker finished interaction for {session_path}. Status: {status}. Message: {finish_message}''
                   [sp, dict_get d ''status'' (JStr ''unknown''), dict_get d ''message'' (JStr [])] st)"
  have k: "kept_or_cleared st ?s"
    by (simp add: clear_active_def kept_or_cleared_def)
  have "active_interaction_session (fst (update_history e d sp ?s)) = active_interaction_session ?s"
    by simp
  then have "active_interaction_session (fst (process_finished e d sp st)) = active_interaction_session ?s"
    by (cases "update_history e d sp ?s")
       (simp add: process_finished_def agent_finished_def split: option.splits)
  with k show ?thesis by (simp add: kept_or_cleared_def)
qed

lemma process_message_kept: "kept_or_cleared st (fst (process_message e m st))"
proof -
  have "kept_or_cleared st (fst (process_stream e d sp st))" for d sp
    by (simp add: process_stream_def Let_def kept_or_cleared_def split: option.splits)
  moreover have "kept_or_cleared st (process_error e d sp st)" for d sp
    by (simp add: process_error_def clear_active_def kept_or_cleared_def)
  moreover have "kept_or_cleared st (print_stderr line vals st)" for line vals
    by (simp add: kept_or_cleared_def)
  ultimately show ?thesis
    using process_finished_kept
    by (simp add: process_message_def Let_def split: json.splits)
qed

lemma process_line_kept: "kept_or_cleared st (process_line e line st)"
proof (cases "loads e line")
  case None
  then show ?thesis by (simp add: process_line_def kept_or_cleared_def)
next
  case (Some m)
  with process_message_kept [of st e m] show ?thesis
    by (cases "process_message e m st")
       (auto simp: process_line_def kept_or_cleared_def split: option.splits)
qed

lemma router_loop_kept: "kept_or_cleared st (router_loop e q st)"
proof (induction e q st rule: router_loop.induct)
  case (1 e st)
  then show ?case by (simp add: kept_or_cleared_def)
next
  case (2 e g q st)
  then show ?case by (simp add: kept_or_cleared_def)
next
  case (3 e g line q st)
  let ?u = "st\<lparr>worker_output_queue := q, routed := routed st @ [(g, spawned st)]\<rparr>"
  have "kept_or_cleared st ?u" by (simp add: kept_or_cleared_def)
  moreover have "kept_or_cleared ?u (process_line e line ?u)" by (rule process_line_kept)
  ultimately show ?case
    using 3 by (auto intro: kept_or_cleared_trans)
qed

lemma stop_llm_worker_kept:
  assumes "stop_llm_worker e st = Some st1"
  shows "kept_or_cleared st st1"
proof -
  have s: "active_interaction_session (stop_process e st) = active_interaction_session st"
    by (simp add: stop_process_def print_stderr_def Let_def split: option.splits terminate_result.splits)
  let ?s = "put (spawned (stop_process e st), None)
               (print_stderr ''Signaling worker queue processor thread to stop...'' [] (stop_process e st))"
  have "kept_or_cleared ?s (router_loop e (worker_output_queue ?s) ?s)" by (rule router_loop_kept)
  with s have "kept_or_cleared st (process_worker_queue e ?s)"
    by (simp add: kept_or_cleared_def process_worker_queue_def)
  with assms s show ?thesis
    by (auto simp: stop_llm_worker_def Let_def kept_or_cleared_def split: if_splits)
qed

lemma start_llm_worker_active:
  assumes "start_llm_worker e st = Some st1"
  shows "active_interaction_session st1 = active_interaction_session st"
  using assms
  by (auto simp: start_llm_worker_def spawn_worker_def Let_def message_emacs_def print_stderr_def
        split: if_splits spawn_result.splits)

lemma restart_worker_kept:
  assumes "restart_worker e st = Some st2"
  shows "kept_or_cleared st st2"
proof -
  from assms obtain st1 where s: "stop_llm_worker e st = Some st1"
    and t: "start_llm_worker e (drain_queue st1) = Some st2"
    by (auto simp: restart_worker_def split: option.splits)
  have "active_interaction_session (drain_queue st1) = active_interaction_session st1"
    by (cases "drain (worker_output_queue st1) 0") (simp add: drain_queue_def)
  with start_llm_worker_active [OF t] stop_llm_worker_kept [OF s] show ?thesis
    by (simp add: kept_or_cleared_def)
qed

lemma rollback_history_active:
  "active_interaction_session (fst (rollback_history e sp st)) = active_interaction_session st"
  by (simp add: rollback_history_def split: option.splits json.splits)

lemma cancel_llm_interaction_kept:
  assumes "cancel_llm_interaction e sp st = Some (st', r)"
  shows "kept_or_cleared st st'"
proof (cases "active_interaction_session st = Some sp")
  case False
  with assms show ?thesis by (auto simp: cancel_llm_interaction_def kept_or_cleared_def)
next
  case True
  with assms obtain st2 where r: "restart_worker e st = Some st2"
    by (auto simp: cancel_llm_interaction_def split: option.splits)
  show ?thesis
  proof (cases "worker_running st2 \<and> processor_thread_alive e")
    case False
    with assms True r show ?thesis
      by (auto simp: cancel_llm_interaction_def kept_or_cleared_def message_emacs_def print_stderr_def
            split: if_splits option.splits)
  next
    case w: True
    let ?s = "st2\<lparr>worker_processor_thread := True\<rparr>"
    have "active_interaction_session (fst (rollback_history e sp ?s)) = active_interaction_session st2"
      by (simp add: rollback_history_active)
    with assms True r w restart_worker_kept [OF r] show ?thesis
      by (cases "rollback_history e sp ?s")
         (auto simp: cancel_llm_interaction_def kept_or_cleared_def split: outcome.splits)
  qed
qed

lemma write_to_worker_kept:
  assumes "write_to_worker e data st = Some st1"
  shows "kept_or_cleared st st1"
proof -
  have "kept_or_cleared st s2"
    if "stop_llm_worker e (print_stderr ''Error sending to LLM worker (Pipe closed or invalid state): {e}'' [] st) = Some s2"
    for s2
    using stop_llm_worker_kept [OF that] by (simp add: kept_or_cleared_def)
  with assms show ?thesis
    by (auto simp: write_to_worker_def report_send_error_def kept_or_cleared_def
          split: option.splits if_splits write_result.splits)
qed

lemma send_to_worker_kept:
  assumes "send_to_worker e data st = Some st1"
  shows "kept_or_cleared st st1"
proof -
  from assms have r: "worker_running st" and l: "\<not> llm_worker_lock st"
    by (auto simp: send_to_worker_def start_llm_worker_def worker_running_def print_stderr_def Let_def
          split: if_splits)
  with assms obtain s where w: "write_to_worker e data (st\<lparr>llm_worker_lock := True\<rparr>) = Some s"
    and s1: "st1 = s\<lparr>llm_worker_lock := False\<rparr>"
    by (auto simp: send_to_worker_def worker_running_def Let_def)
  from write_to_worker_kept [OF w] s1 show ?thesis by (simp add: kept_or_cleared_def)
qed

lemma configure_and_send_kept:
  assumes "configure_and_send e sp prompt c cs st = Some (st', r)"
  shows "kept_or_cleared st st'"
proof -
  have "kept_or_cleared st s1"
    if "send_request e prompt c cs m b a st = Some (s1, r1)" for m b a s1 r1
    using that
    by (auto simp: send_request_def split: option.splits dest: send_to_worker_kept)
  with assms show ?thesis
    by (auto simp: configure_and_send_def Let_def kept_or_cleared_def
          split: option.splits if_splits bool.splits)
qed

lemma prepare_interaction_active:
  assumes "prepare_interaction e sp prompt dicts st = Some (st', r)"
  shows "active_interaction_session st' = Some sp \<or> active_interaction_session st' = None"
proof -
  let ?s = "st\<lparr>active_interaction_session := Some sp\<rparr>"
  obtain st1 r1 where g: "get_or_create_context e (JStr sp) ?s = (st1, r1)"
    by (cases "get_or_create_context e (JStr sp) ?s")
  have "active_interaction_session (fst (get_or_create_context e (JStr sp) ?s)) = Some sp" by simp
  with g have a: "active_interaction_session st1 = Some sp" by simp
  have k: "active_interaction_session s' = Some sp \<or> active_interaction_session s' = None"
    if "configure_and_send e sp prompt c1 cs (store_context (JStr sp) c1 (eval_in_emacs f args st1)) = Some (s', r')"
    for c1 cs f args s' r'
    using configure_and_send_kept [OF that] a by (auto simp: kept_or_cleared_def)
  from assms g a show ?thesis
    by (auto simp: prepare_interaction_def split: outcome.splits option.splits prod.splits dest: k)
qed

lemma emigo_send_active:
  assumes "emigo_send e sp prompt ho st = Some (st', r)"
  shows "active_interaction_session st' = active_interaction_session st
         \<or> active_interaction_session st' = None
         \<or> active_interaction_session st' = Some sp"
  using assms
  by (auto simp: emigo_send_def Let_def kept_or_cleared_def
        split: if_splits option.splits bool.splits prod.splits outcome.splits
        dest: prepare_interaction_active cancel_llm_interaction_kept)

lemma pump_lines_active:
  "pump_lines g reads st = Some st1 \<Longrightarrow> active_interaction_session st1 = active_interaction_session st"
  by (induction g reads st rule: pump_lines.induct) (auto split: if_splits)

lemma step_active:
  assumes "step ev st = Some st1"
  shows "busy st1 \<subseteq> busy st \<union> submitted [ev]"
proof (cases ev)
  case (Submit e sp prompt ho)
  with assms obtain r where "emigo_send e sp prompt ho st = Some (st1, r)" by auto
  from emigo_send_active [OF this] Submit show ?thesis by (auto simp: busy_def)
next
  case (Cancel e sp)
  with assms obtain r where "cancel_llm_interaction e sp st = Some (st1, r)" by auto
  from cancel_llm_interaction_kept [OF this] show ?thesis
    by (auto simp: busy_def kept_or_cleared_def)
next
  case (Pump proc reads)
  with assms show ?thesis
    by (auto simp: read_worker_stdout_def busy_def split: if_splits option.splits
          dest: pump_lines_active)
next
  case (Router e)
  with assms router_loop_kept [of st e "worker_output_queue st"] show ?thesis
    by (auto simp: busy_def kept_or_cleared_def process_worker_queue_def split: if_splits)
qed

lemma submitted_Cons: "submitted (ev # evs) = submitted [ev] \<union> submitted evs"
  by (cases ev) auto

text \<open>
  C2. After any schedule of requests, pump runs and router runs, the state records no
  session or exactly one session as the active interaction; and a session it records was
  active before the schedule or is one the schedule submitted a request for.
\<close>

theorem at_most_one_active_session:
  assumes "run evs st = Some st'"
  shows "card (busy st') \<le> 1 \<and> busy st' \<subseteq> busy st \<union> submitted evs"
proof -
  have "busy st' \<subseteq> busy st \<union> submitted evs"
    using assms
  proof (induction evs arbitrary: st)
    case Nil
    then show ?case by simp
  next
    case (Cons ev evs)
    then obtain st1 where s: "step ev st = Some st1" and r: "run evs st1 = Some st'"
      by (auto split: option.splits)
    from Cons.IH [OF r] step_active [OF s] show ?case
      by (subst submitted_Cons) blast
  qed
  moreover have "card (busy st') \<le> 1"
    by (cases "active_interaction_session st'") (auto simp: busy_def)
  ultimately show ?thesis by simp
qed

text \<open>
  At a concrete input: a second prompt, for another session, is declined.
\<close>

theorem at_most_one_active_session_witness:
  "\<exists>st'. run [Submit env_ok ''/proj'' ''add a README'' JNull, Submit env_ok ''/other'' ''hello'' JNull] started
            = Some st'
         \<and> busy st' = {''/proj''} \<and> card (busy st') \<le> 1
         \<and> busy st' \<subseteq> busy started
               \<union> submitted [Submit env_ok ''/proj'' ''add a README'' JNull,
                                 Submit env_ok ''/other'' ''hello'' JNull]"
proof -
  let ?evs = "[Submit env_ok ''/proj'' ''add a README'' JNull, Submit env_ok ''/other'' ''hello'' JNull]"
  have "\<exists>st'. run ?evs started = Some st' \<and> active_interaction_session st' = Some ''/proj''"
    by (simp add: eval_defs)
  then obtain st' where r: "run ?evs started = Some st'"
    and a: "active_interaction_session st' = Some ''/proj''" by blast
  from a have "busy st' = {''/proj''}" by (auto simp: busy_def)
  with at_most_one_active_session [OF r] r show ?thesis by blast
qed

section \<open>Sending while the worker is not running\<close>

text \<open>
  \<^verbatim>\<open>_send_to_worker\<close> calls \<^verbatim>\<open>_start_llm_worker\<close> while it holds the lock that
  \<^verbatim>\<open>_start_llm_worker\<close> takes first: with no running worker it never returns.
\<close>

lemma send_to_worker_dead:
  "\<not> worker_running st \<Longrightarrow> send_to_worker e data st = None"
  by (simp add: send_to_worker_def start_llm_worker_def worker_running_def print_stderr_def Let_def)

text \<open>
  C6. The code at a failing input: the worker of the active session has died. Neither
  \<^verbatim>\<open>_send_to_worker\<close> nor a new \<^verbatim>\<open>emigo_send\<close> returns, where C6 has one restart attempt, an
  error notification and a return.
\<close>

theorem send_blocks_when_worker_is_dead:
  "send_to_worker env_ok [(''type'', JStr ''interaction_request'')] crashed_proj = None
   \<and> emigo_send env_ok ''/proj'' ''try again'' JNull (crashed_proj\<lparr>active_interaction_session := None\<rparr>) = None"
  by (simp add: eval_defs crashed_proj_def)

end
